theory Spec2Isabelle
  imports Main "HOL-Library.Sublist"
begin

section \<open>Go strings\<close>

text \<open>
  A Go string is a sequence of bytes; \<open>string\<close> (a list of 8-bit characters) models it
  byte for byte. \<open>strings.HasPrefix\<close> and \<open>strings.TrimPrefix\<close> compare bytes.
\<close>

definition HasPrefix :: "string \<Rightarrow> string \<Rightarrow> bool" where
  "HasPrefix s p = prefix p s"

definition TrimPrefix :: "string \<Rightarrow> string \<Rightarrow> string" where
  "TrimPrefix s p = (if HasPrefix s p then drop (length p) s else s)"

text \<open>
  \<open>strings.TrimSpace\<close> removes leading and trailing white space "as defined by Unicode"
  (\<open>unicode.IsSpace\<close>): the six ASCII characters tab, line feed, vertical tab, form
  feed, carriage return and space, then U+0085 and U+00A0, and the code points with the
  White_Space property U+1680, U+2000..U+200A, U+2028, U+2029, U+202F, U+205F, U+3000.
  On a byte string these are the UTF-8 sequences below; the text of a chat message is
  decoded from JSON and is valid UTF-8, where a string starts (ends) with such a byte
  sequence exactly when its first (last) code point is that white-space character.
\<close>

definition asciiSpace :: "string list" where
  "asciiSpace = map (\<lambda>c. [c]) [CHR 0x09, CHR 0x0A, CHR 0x0B, CHR 0x0C, CHR 0x0D, CHR 0x20]"

definition unicodeSpace :: "string list" where
  "unicodeSpace =
     [[CHR 0xC2, CHR 0x85], [CHR 0xC2, CHR 0xA0], [CHR 0xE1, CHR 0x9A, CHR 0x80]] @
     map (\<lambda>c. [CHR 0xE2, CHR 0x80, c])
       [CHR 0x80, CHR 0x81, CHR 0x82, CHR 0x83, CHR 0x84, CHR 0x85, CHR 0x86, CHR 0x87,
        CHR 0x88, CHR 0x89, CHR 0x8A, CHR 0xA8, CHR 0xA9, CHR 0xAF] @
     [[CHR 0xE2, CHR 0x81, CHR 0x9F], [CHR 0xE3, CHR 0x80, CHR 0x80]]"

definition spaces :: "string list" where
  "spaces = asciiSpace @ unicodeSpace"

text \<open>\<open>strip ws s\<close> removes from the front of \<open>s\<close> every leading occurrence of a
  sequence of \<open>ws\<close>, as the loop of \<open>strings.TrimLeftFunc\<close> does rune by rune.\<close>

function strip :: "string list \<Rightarrow> string \<Rightarrow> string" where
  "strip ws s =
     (case find (\<lambda>w. w \<noteq> [] \<and> prefix w s) ws of
        None \<Rightarrow> s
      | Some w \<Rightarrow> strip ws (drop (length w) s))"
  by pat_completeness auto
termination
proof (relation "measure (\<lambda>(ws, s). length s)")
  show "wf (measure (\<lambda>(ws, s). length s))" by simp
next
  fix ws :: "string list" and s w :: string
  assume "find (\<lambda>w. w \<noteq> [] \<and> prefix w s) ws = Some w"
  then have "w \<noteq> []" and "prefix w s"
    by (auto simp: find_Some_iff)
  then have "s \<noteq> []" by auto
  with \<open>w \<noteq> []\<close> show "((ws, drop (length w) s), (ws, s)) \<in> measure (\<lambda>(ws, s). length s)"
    by simp
qed

declare strip.simps [simp del]

definition TrimLeftSpace :: "string \<Rightarrow> string" where
  "TrimLeftSpace s = strip spaces s"

definition TrimRightSpace :: "string \<Rightarrow> string" where
  "TrimRightSpace s = rev (strip (map rev spaces) (rev s))"

definition TrimSpace :: "string \<Rightarrow> string" where
  "TrimSpace s = TrimRightSpace (TrimLeftSpace s)"

definition Join :: "string list \<Rightarrow> string \<Rightarrow> string" where
  "Join elems sep = (case elems of [] \<Rightarrow> [] | e # es \<Rightarrow> foldl (\<lambda>acc x. acc @ sep @ x) e es)"


section \<open>Errors, JSON values and the outside world\<close>

text \<open>
  Go's \<open>error\<close> values that the programs create or compare, and any other failure
  (database driver, HTTP transport, decoder) with its message. \<open>Error\<close> is the
  method \<open>err.Error()\<close>, which \<open>%v\<close> prints.
\<close>

datatype error = ErrNoRows | ErrInvalidResponse | ErrNoItems | ErrOther string

fun Error :: "error \<Rightarrow> string" where
  "Error ErrNoRows = ''sql: no rows in result set''"
| "Error ErrInvalidResponse = ''invalid response format''"
| "Error ErrNoItems = ''no items found in the feed''"
| "Error (ErrOther m) = m"

text \<open>What \<open>json.Unmarshal\<close> into \<open>interface{}\<close> produces (the value of a number
  plays no role here).\<close>

datatype json =
    JNull | JBool bool | JNumber int | JString string
  | JArray "json list" | JObject "(string \<times> json) list"

text \<open>The body of an HTTP response: not JSON text at all (with the decoder's syntax
  error), or the JSON text of a value. The response: \<open>client.Do\<close> fails, or a body is
  read (\<open>io.ReadAll\<close>), possibly with a read error.\<close>

datatype body = NotJSON error | JSON json

datatype response = TransportError error | Received "error option" body

text \<open>
  What the outside world answers while one message is handled: the failure, if any, of
  the INSERT, SELECT and DELETE statements, the row that \<open>ORDER BY RANDOM() LIMIT 1\<close>
  puts first (an index, taken modulo the number of rows), the parsed feed behind a URL
  (title and description of each item), and the response of the completion endpoint to
  a request with the given user content.
\<close>

record env =
  db_insert :: "error option"
  db_select :: "error option"
  db_delete :: "error option"
  random :: nat
  feed :: "string \<Rightarrow> error + (string \<times> string) list"
  http :: "string \<Rightarrow> response"

text \<open>A function returns, or panics (an unrecovered panic in the listener goroutine
  ends the process).\<close>

datatype 'a outcome = Returns 'a | Panics

subsection \<open>Decoding into \<open>map[string]interface{}\<close>\<close>

text \<open>A decoded JSON object keeps the last value of a repeated key. A missing key gives
  the nil interface, on which every type assertion fails.\<close>

definition index :: "(string \<times> json) list \<Rightarrow> string \<Rightarrow> json option" where
  "index m k = map_of (rev m) k"

fun kind :: "json \<Rightarrow> string" where
  "kind JNull = ''null''"
| "kind (JBool b) = ''bool''"
| "kind (JNumber n) = ''number''"
| "kind (JString s) = ''string''"
| "kind (JArray xs) = ''array''"
| "kind (JObject m) = ''object''"

text \<open>\<open>json.Unmarshal(body, &result)\<close> with \<open>result\<close> a nil
  \<open>map[string]interface{}\<close>: an object fills the map, \<open>null\<close> leaves it nil (no
  error), anything else is an \<open>UnmarshalTypeError\<close>.\<close>

fun Unmarshal :: "body \<Rightarrow> error + (string \<times> json) list" where
  "Unmarshal (NotJSON err) = Inl err"
| "Unmarshal (JSON (JObject m)) = Inr m"
| "Unmarshal (JSON JNull) = Inr []"
| "Unmarshal (JSON j) =
     Inl (ErrOther (''json: cannot unmarshal '' @ kind j @
                    '' into Go value of type map[string]interface {}''))"

text \<open>The comma-ok type assertions \<open>x.([]interface{})\<close>,
  \<open>x.(map[string]interface{})\<close> and \<open>x.(string)\<close>: \<open>None\<close> is \<open>ok = false\<close>.\<close>

fun asArray :: "json option \<Rightarrow> json list option" where
  "asArray (Some (JArray xs)) = Some xs"
| "asArray _ = None"

fun asObject :: "json option \<Rightarrow> (string \<times> json) list option" where
  "asObject (Some (JObject m)) = Some m"
| "asObject _ = None"

fun asString :: "json option \<Rightarrow> string option" where
  "asString (Some (JString s)) = Some s"
| "asString _ = None"

section \<open>State\<close>

text \<open>
  The table \<open>hyperlinks (id INTEGER PRIMARY KEY AUTOINCREMENT, url TEXT)\<close> is the list
  of its rows with the last id handed out (\<open>seq\<close>); \<open>outbox\<close> lists the messages
  given to \<open>PostMessage\<close> (channel, text) and \<open>requests\<close> the user contents of the
  requests sent to the completion endpoint, both in order.
\<close>

record chat =
  outbox :: "(string \<times> string) list"
  requests :: "string list"

record world = chat +
  rows :: "(nat \<times> string) list"
  seq :: nat

text \<open>The program of \<^verbatim>\<open>src/unnamed/part_000\<close> adds the globals \<open>lastUserInput\<close>
  and \<open>lastBotResponse\<close>, both the empty string when the process starts.\<close>

record bot = world +
  lastUserInput :: string
  lastBotResponse :: string

definition start :: "(nat \<times> string) list \<Rightarrow> nat \<Rightarrow> bot" where
  "start rs n =
     \<lparr>outbox = [], requests = [], rows = rs, seq = n,
      lastUserInput = [], lastBotResponse = []\<rparr>"

record MessageEvent =
  Channel :: string
  User :: string
  Text :: string
  BotID :: string

datatype InnerEvent = Message MessageEvent | OtherInnerEvent

datatype Event = EventsAPI InnerEvent | OtherEvent


section \<open>Functions that the programs define alike\<close>

text \<open>\<open>slackSendMessage\<close>: one call of \<open>PostMessage\<close>; a failure is only logged.\<close>

definition slackSendMessage :: "string \<Rightarrow> string \<Rightarrow> 'a chat_scheme \<Rightarrow> 'a chat_scheme" where
  "slackSendMessage channel message w = w\<lparr>outbox := outbox w @ [(channel, message)]\<rparr>"

text \<open>\<open>saveHyperlink\<close>: \<open>INSERT INTO hyperlinks (url) VALUES (?)\<close>; the new row takes
  the next id.\<close>

definition saveHyperlink :: "env \<Rightarrow> string \<Rightarrow> 'a world_scheme \<Rightarrow> error option \<times> 'a world_scheme" where
  "saveHyperlink e url w =
     (case db_insert e of
        Some err \<Rightarrow> (Some err, w)
      | None \<Rightarrow> (None, w\<lparr>rows := rows w @ [(Suc (seq w), url)], seq := Suc (seq w)\<rparr>))"

text \<open>\<open>listHyperlinks\<close> (\<open>getAllHyperlinks\<close> in \<^verbatim>\<open>main.go\<close>):
  \<open>SELECT url FROM hyperlinks\<close>.\<close>

definition listHyperlinks :: "env \<Rightarrow> 'a world_scheme \<Rightarrow> string list \<times> error option" where
  "listHyperlinks e w =
     (case db_select e of
        Some err \<Rightarrow> ([], Some err)
      | None \<Rightarrow> (map snd (rows w), None))"

text \<open>The row that \<open>SELECT ... ORDER BY RANDOM() LIMIT 1\<close> scans, or the error of
  \<open>Scan\<close>: the failure of the statement, or \<open>sql.ErrNoRows\<close> on an empty table.\<close>

definition selectRandom :: "env \<Rightarrow> 'a world_scheme \<Rightarrow> error + (nat \<times> string)" where
  "selectRandom e w =
     (case db_select e of
        Some err \<Rightarrow> Inl err
      | None \<Rightarrow> if rows w = [] then Inl ErrNoRows
                else Inr (rows w ! (random e mod length (rows w))))"

section \<open>The program of \<^verbatim>\<open>src/unnamed/part_000\<close>\<close>

text \<open>\<open>PerplexityAPI\<close> (lines 142-201) sends one request and digs
  \<open>choices[0].message.content\<close> out of the decoded body. On line 190 the assertion
  \<open>choices[0].(map[string]interface{})\<close> has the single-value form, which panics
  when \<open>choices[0]\<close> is not an object.\<close>

definition PerplexityAPI ::
  "env \<Rightarrow> string \<Rightarrow> 'a world_scheme \<Rightarrow> (string \<times> error option) outcome \<times> 'a world_scheme" where
  "PerplexityAPI e input w =
     (let w' = w\<lparr>requests := requests w @ [input]\<rparr> in
      case http e input of
        TransportError err \<Rightarrow> (Returns ([], Some err), w')
      | Received (Some err) b \<Rightarrow> (Returns ([], Some err), w')
      | Received None b \<Rightarrow>
          (case Unmarshal b of
             Inl err \<Rightarrow> (Returns ([], Some err), w')
           | Inr result \<Rightarrow>
               (case asArray (index result ''choices'') of
                  None \<Rightarrow> (Returns ([], Some ErrInvalidResponse), w')
                | Some [] \<Rightarrow> (Returns ([], Some ErrInvalidResponse), w')
                | Some (c # cs) \<Rightarrow>
                    (case asObject (Some c) of
                       None \<Rightarrow> (Panics, w')
                     | Some choice \<Rightarrow>
                         (case asObject (index choice ''message'') of
                            None \<Rightarrow> (Returns ([], Some ErrInvalidResponse), w')
                          | Some message \<Rightarrow>
                              (case asString (index message ''content'') of
                                 None \<Rightarrow> (Returns ([], Some ErrInvalidResponse), w')
                               | Some content \<Rightarrow> (Returns (content, None), w')))))))"

text \<open>\<open>getRandomHyperlink\<close> (lines 233-247): select \<open>id, url\<close> of a random row, then
  \<open>DELETE FROM hyperlinks WHERE id = ?\<close>. Every error of \<open>Scan\<close> is returned,
  \<open>sql.ErrNoRows\<close> included.\<close>

definition getRandomHyperlink :: "env \<Rightarrow> 'a world_scheme \<Rightarrow> (string \<times> error option) \<times> 'a world_scheme" where
  "getRandomHyperlink e w =
     (case selectRandom e w of
        Inl err \<Rightarrow> (([], Some err), w)
      | Inr (id', url) \<Rightarrow>
          (case db_delete e of
             Some err \<Rightarrow> (([], Some err), w)
           | None \<Rightarrow> ((url, None), w\<lparr>rows := filter (\<lambda>r. fst r \<noteq> id') (rows w)\<rparr>)))"

text \<open>\<open>summarizeArticle\<close> (lines 249-267); the 30 second deadline of the fetch is one
  of the errors of \<open>feed\<close>.\<close>

definition summarizeArticle :: "env \<Rightarrow> string \<Rightarrow> string \<times> error option" where
  "summarizeArticle e url =
     (case feed e url of
        Inl err \<Rightarrow> ([], Some err)
      | Inr [] \<Rightarrow> ([], Some ErrNoItems)
      | Inr ((title, description) # items) \<Rightarrow>
          (''Title: '' @ title @ [CHR 0x0A, CHR 0x0A] @ ''Description: '' @ description, None))"

text \<open>\<open>handleUserMessage\<close> (lines 90-140).\<close>

definition handleUserMessage :: "env \<Rightarrow> MessageEvent \<Rightarrow> bot \<Rightarrow> bot outcome" where
  "handleUserMessage e ev st =
     (let text = TrimSpace (Text ev) in
      if HasPrefix text ''!save '' then
        (let url = TrimPrefix text ''!save '' in
         case saveHyperlink e url st of
           (Some err, st1) \<Rightarrow>
             Returns (slackSendMessage (Channel ev) (''Error saving hyperlink: '' @ Error err) st1)
         | (None, st1) \<Rightarrow>
             Returns (slackSendMessage (Channel ev) ''Hyperlink saved successfully!'' st1))
      else if text = ''!list'' then
        (case listHyperlinks e st of
           (links, Some err) \<Rightarrow>
             Returns (slackSendMessage (Channel ev) (''Error listing hyperlinks: '' @ Error err) st)
         | (links, None) \<Rightarrow>
             Returns (slackSendMessage (Channel ev)
                        (''Saved hyperlinks:'' @ [CHR 0x0A] @ Join links [CHR 0x0A]) st))
      else if text = ''!random'' then
        (case getRandomHyperlink e st of
           ((link, Some err), st1) \<Rightarrow>
             Returns (slackSendMessage (Channel ev)
                        (''Error getting random hyperlink: '' @ Error err) st1)
         | ((link, None), st1) \<Rightarrow>
             Returns (slackSendMessage (Channel ev) (''Random hyperlink: '' @ link) st1))
      else if text = ''!summarize'' then
        (case getRandomHyperlink e st of
           ((link, Some err), st1) \<Rightarrow>
             Returns (slackSendMessage (Channel ev)
                        (''Error getting random hyperlink: '' @ Error err) st1)
         | ((link, None), st1) \<Rightarrow>
             (case summarizeArticle e link of
                (summary, Some err) \<Rightarrow>
                  Returns (slackSendMessage (Channel ev)
                             (''Error summarizing article: '' @ Error err) st1)
              | (summary, None) \<Rightarrow>
                  Returns (slackSendMessage (Channel ev)
                             (''Summary of '' @ link @ '':'' @ [CHR 0x0A] @ summary) st1)))
      else if text \<noteq> lastUserInput st then
        (case PerplexityAPI e text (st\<lparr>lastUserInput := text\<rparr>) of
           (Panics, st1) \<Rightarrow> Panics
         | (Returns (response, Some err), st1) \<Rightarrow>
             Returns (slackSendMessage (Channel ev) (''Error: '' @ Error err) st1)
         | (Returns (response, None), st1) \<Rightarrow>
             Returns (slackSendMessage (Channel ev) response
                        (st1\<lparr>lastBotResponse := response\<rparr>)))
      else Returns (slackSendMessage (Channel ev) (lastBotResponse st) st))"

text \<open>\<open>handleEventAPI\<close> (lines 81-88) passes on the message events whose \<open>BotID\<close> is
  empty; the loop of \<open>main\<close> (lines 61-73) feeds it every Events API event.\<close>

definition handleEventAPI :: "env \<Rightarrow> InnerEvent \<Rightarrow> bot \<Rightarrow> bot outcome" where
  "handleEventAPI e event st =
     (case event of
        Message ev \<Rightarrow> if BotID ev = [] then handleUserMessage e ev st else Returns st
      | OtherInnerEvent \<Rightarrow> Returns st)"

fun listen :: "(env \<times> Event) list \<Rightarrow> bot \<Rightarrow> bot outcome" where
  "listen [] st = Returns st"
| "listen ((e, EventsAPI event) # evts) st =
     (case handleEventAPI e event st of
        Panics \<Rightarrow> Panics
      | Returns st' \<Rightarrow> listen evts st')"
| "listen ((e, OtherEvent) # evts) st = listen evts st"


section \<open>The first program of \<^verbatim>\<open>src/main.go\<close> (lines 1-235)\<close>

text \<open>\<open>PerplexityAPI\<close> (lines 136-174) returns a text in every case: the error of
  \<open>client.Do\<close> as a text, the content, or a fixed text. The errors of \<open>io.ReadAll\<close>
  and \<open>json.Unmarshal\<close> are dropped, and \<open>result\<close> stays nil when decoding fails.\<close>

definition PerplexityAPI_main :: "env \<Rightarrow> string \<Rightarrow> 'a chat_scheme \<Rightarrow> string \<times> 'a chat_scheme" where
  "PerplexityAPI_main e query w =
     (let w' = w\<lparr>requests := requests w @ [query]\<rparr> in
      case http e query of
        TransportError err \<Rightarrow> (''Error: '' @ Error err, w')
      | Received rerr b \<Rightarrow>
          (let result = (case Unmarshal b of Inl err \<Rightarrow> [] | Inr m \<Rightarrow> m) in
           case asArray (index result ''choices'') of
             Some (c # cs) \<Rightarrow>
               (case asObject (Some c) of
                  Some choice \<Rightarrow>
                    (case asObject (index choice ''message'') of
                       Some message \<Rightarrow>
                         (case asString (index message ''content'') of
                            Some content \<Rightarrow> (content, w')
                          | None \<Rightarrow> (''No response from Perplexity API'', w'))
                     | None \<Rightarrow> (''No response from Perplexity API'', w'))
                | None \<Rightarrow> (''No response from Perplexity API'', w'))
           | _ \<Rightarrow> (''No response from Perplexity API'', w')))"

text \<open>\<open>getRandomHyperlink\<close> (lines 188-202): select the \<open>url\<close> of a random row;
  \<open>sql.ErrNoRows\<close> gives the empty string and no error; then
  \<open>DELETE FROM hyperlinks WHERE url = ?\<close>.\<close>

definition getRandomHyperlink_main ::
  "env \<Rightarrow> 'a world_scheme \<Rightarrow> (string \<times> error option) \<times> 'a world_scheme" where
  "getRandomHyperlink_main e w =
     (case selectRandom e w of
        Inl err \<Rightarrow> if err = ErrNoRows then (([], None), w) else (([], Some err), w)
      | Inr (id', url) \<Rightarrow>
          (case db_delete e of
             Some err \<Rightarrow> (([], Some err), w)
           | None \<Rightarrow> ((url, None), w\<lparr>rows := filter (\<lambda>r. snd r \<noteq> url) (rows w)\<rparr>)))"

text \<open>\<open>fetchRSS\<close> (lines 222-235).\<close>

definition fetchRSS :: "env \<Rightarrow> string \<Rightarrow> string \<times> error option" where
  "fetchRSS e url =
     (case feed e url of
        Inl err \<Rightarrow> ([], Some err)
      | Inr ((title, description) # items) \<Rightarrow>
          (''Title: '' @ title @ [CHR 0x0A, CHR 0x0A] @ ''Description: '' @ description, None)
      | Inr [] \<Rightarrow> ([], Some ErrNoItems))"

text \<open>\<open>handleMessage\<close> (lines 85-134); the chain of branches has no final \<open>else\<close>.\<close>

definition handleMessage :: "env \<Rightarrow> MessageEvent \<Rightarrow> world \<Rightarrow> world" where
  "handleMessage e event w =
     (let text = TrimSpace (Text event) in
      if HasPrefix text ''!perplexity'' then
        (let query = TrimPrefix text ''!perplexity'' in
         case PerplexityAPI_main e query w of
           (response, w1) \<Rightarrow> slackSendMessage (Channel event) response w1)
      else if HasPrefix text ''!savelink'' then
        (let url = TrimPrefix text ''!savelink'' in
         case saveHyperlink e url w of
           (Some err, w1) \<Rightarrow>
             slackSendMessage (Channel event) (''Error saving hyperlink: '' @ Error err) w1
         | (None, w1) \<Rightarrow>
             slackSendMessage (Channel event) ''Hyperlink saved successfully'' w1)
      else if text = ''!getlink'' then
        (case getRandomHyperlink_main e w of
           ((url, Some err), w1) \<Rightarrow>
             slackSendMessage (Channel event) (''Error getting hyperlink: '' @ Error err) w1
         | ((url, None), w1) \<Rightarrow>
             if url = [] then slackSendMessage (Channel event) ''No hyperlinks available'' w1
             else slackSendMessage (Channel event) (''Random hyperlink: '' @ url) w1)
      else if text = ''!listlinks'' then
        (case listHyperlinks e w of
           (links, Some err) \<Rightarrow>
             slackSendMessage (Channel event) (''Error listing hyperlinks: '' @ Error err) w
         | (links, None) \<Rightarrow>
             if length links = 0 then slackSendMessage (Channel event) ''No hyperlinks saved'' w
             else slackSendMessage (Channel event)
                    (''Saved hyperlinks:'' @ [CHR 0x0A] @ Join links [CHR 0x0A]) w)
      else if text = ''!summarize'' then
        (case getRandomHyperlink_main e w of
           ((url, Some err), w1) \<Rightarrow>
             slackSendMessage (Channel event) (''Error getting hyperlink: '' @ Error err) w1
         | ((url, None), w1) \<Rightarrow>
             if url = [] then slackSendMessage (Channel event) ''No hyperlinks available'' w1
             else
               (case fetchRSS e url of
                  (article, Some err) \<Rightarrow>
                    slackSendMessage (Channel event) (''Error fetching article: '' @ Error err) w1
                | (article, None) \<Rightarrow>
                    (case PerplexityAPI_main e (''Summarize this article: '' @ article) w1 of
                       (summary, w2) \<Rightarrow>
                         slackSendMessage (Channel event)
                           (''Summary of article from '' @ url @ '':'' @ [CHR 0x0A, CHR 0x0A] @ summary)
                           w2)))
      else w)"

text \<open>The loop of \<open>main\<close> (lines 55-80) hands every message event to \<open>handleMessage\<close>;
  it does not look at \<open>BotID\<close>.\<close>

fun listen_main :: "(env \<times> Event) list \<Rightarrow> world \<Rightarrow> world" where
  "listen_main [] w = w"
| "listen_main ((e, EventsAPI (Message ev)) # evts) w = listen_main evts (handleMessage e ev w)"
| "listen_main ((e, evt) # evts) w = listen_main evts w"

section \<open>The second program of \<^verbatim>\<open>src/main.go\<close> (lines 237-451)\<close>

text \<open>The loop of \<open>main\<close> (lines 385-447) keeps \<open>lastMessage\<close>, a Go map from the
  sender to the last text answered; a missing key reads as the empty string.\<close>

record dedup = chat +
  lastMessage :: "string \<rightharpoonup> string"

definition lookup :: "(string \<rightharpoonup> string) \<Rightarrow> string \<Rightarrow> string" where
  "lookup m k = (case m k of None \<Rightarrow> [] | Some v \<Rightarrow> v)"

text \<open>\<open>SlackSend\<close> (lines 325-344) posts to the channel \<open>general\<close>.\<close>

definition SlackSend :: "string \<Rightarrow> 'a chat_scheme \<Rightarrow> 'a chat_scheme" where
  "SlackSend text w = w\<lparr>outbox := outbox w @ [(''general'', text)]\<rparr>"

text \<open>
  One turn of the loop for a message event. \<open>PerplexityAPI\<close> (lines 278-322) returns
  the raw body, or the error of \<open>client.Do\<close> or \<open>io.ReadAll\<close>; the body is then
  decoded into the struct \<open>PerplexityResponse\<close> by \<open>json.Unmarshal\<close>, a library
  function taken here as the parameter \<open>decode\<close>: an error, or the
  \<open>Message.Content\<close> of each element of \<open>Choices\<close>. The process is taken to run
  with the environment variables set.
\<close>

definition turn ::
  "(body \<Rightarrow> error + string list) \<Rightarrow> env \<Rightarrow> MessageEvent \<Rightarrow> dedup \<Rightarrow> dedup" where
  "turn decode e ev s =
     (if BotID ev \<noteq> [] then s
      else
        (let s1 = s\<lparr>requests := requests s @ [Text ev]\<rparr> in
         case http e (Text ev) of
           TransportError err \<Rightarrow> s1
         | Received (Some err) b \<Rightarrow> s1
         | Received None b \<Rightarrow>
             (case decode b of
                Inl err \<Rightarrow> s1
              | Inr choices \<Rightarrow>
                  if Text ev \<noteq> lookup (lastMessage s1) (User ev) then
                    (case choices of
                       [] \<Rightarrow> s1
                     | content # cs \<Rightarrow>
                         (SlackSend content s1)
                           \<lparr>lastMessage := (lastMessage s1)(User ev \<mapsto> Text ev)\<rparr>)
                  else s1)))"


section \<open>Concrete inputs\<close>

text \<open>An outside world where every statement succeeds, the feed has no items and the
  endpoint answers every request with the content \<open>hi\<close>; one where the endpoint cannot
  be reached; and one where the first element of \<open>choices\<close> is a string.\<close>

definition answering :: env where
  "answering =
     \<lparr>db_insert = None, db_select = None, db_delete = None, random = 0,
      feed = (\<lambda>url. Inr []),
      http = (\<lambda>q. Received None (JSON (JObject [(''choices'',
                JArray [JObject [(''message'', JObject [(''content'', JString ''hi'')])]])])))\<rparr>"

definition unreachable :: env where
  "unreachable = answering\<lparr>http := (\<lambda>q. TransportError (ErrOther ''connection refused''))\<rparr>"

definition misshapen :: env where
  "misshapen =
     answering\<lparr>http := (\<lambda>q. Received None (JSON (JObject [(''choices'', JArray [JString ''x''])])))\<rparr>"

text \<open>A message of a person (empty \<open>BotID\<close>) and of a bot, in channel \<open>lobby\<close>.\<close>

definition person :: "string \<Rightarrow> string \<Rightarrow> MessageEvent" where
  "person user text = \<lparr>Channel = ''lobby'', User = user, Text = text, BotID = []\<rparr>"

definition automaton :: "string \<Rightarrow> string \<Rightarrow> MessageEvent" where
  "automaton user text = \<lparr>Channel = ''lobby'', User = user, Text = text, BotID = ''B7''\<rparr>"

text \<open>The first program of \<^verbatim>\<open>main.go\<close> at start, with the given table.\<close>

definition start_main :: "(nat \<times> string) list \<Rightarrow> nat \<Rightarrow> world" where
  "start_main rs n = \<lparr>outbox = [], requests = [], rows = rs, seq = n\<rparr>"

text \<open>The second program of \<^verbatim>\<open>main.go\<close> at start (\<open>lastMessage\<close> is made empty on
  line 387), and the result of decoding the body that \<open>answering\<close> sends: one choice
  with the content \<open>hi\<close>.\<close>

definition start_dedup :: dedup where
  "start_dedup = \<lparr>outbox = [], requests = [], lastMessage = Map.empty\<rparr>"

definition one_choice :: "body \<Rightarrow> error + string list" where
  "one_choice b = Inr [''hi'']"


section \<open>Facts about the library functions\<close>

lemma strip_no_prefix: "w \<in> set ws \<Longrightarrow> w \<noteq> [] \<Longrightarrow> \<not> prefix w (strip ws s)"
proof (induction ws s rule: strip.induct)
  case (1 ws s)
  show ?case
  proof (cases "find (\<lambda>w. w \<noteq> [] \<and> prefix w s) ws")
    case None
    then have "strip ws s = s" by (simp add: strip.simps)
    moreover from None "1.prems" have "\<not> prefix w s" by (auto simp: find_None_iff)
    ultimately show ?thesis by simp
  next
    case (Some v)
    then have "strip ws s = strip ws (drop (length v) s)" by (simp add: strip.simps)
    with "1.IH" [OF Some] "1.prems" show ?thesis by simp
  qed
qed

text \<open>A trimmed text does not end with a space, so what follows the prefix \<open>!save\<close>
  and its space in a trimmed text is never empty.\<close>

lemma TrimSpace_no_trailing_space: "TrimSpace s \<noteq> xs @ '' ''"
proof
  assume "TrimSpace s = xs @ '' ''"
  then have "strip (map rev spaces) (rev (TrimLeftSpace s)) = '' '' @ rev xs"
    by (simp add: TrimSpace_def TrimRightSpace_def rev_swap)
  then have "prefix '' '' (strip (map rev spaces) (rev (TrimLeftSpace s)))"
    by simp
  moreover have "'' '' \<in> set (map rev spaces)"
    by (simp add: spaces_def asciiSpace_def)
  ultimately show False
    using strip_no_prefix by blast
qed

lemma save_remainder_nonempty:
  assumes "HasPrefix (TrimSpace s) ''!save ''"
  shows "TrimPrefix (TrimSpace s) ''!save '' \<noteq> []"
proof
  assume "TrimPrefix (TrimSpace s) ''!save '' = []"
  with assms have "TrimSpace s = ''!save'' @ '' ''"
    by (auto simp: TrimPrefix_def HasPrefix_def prefix_def)
  then show False
    using TrimSpace_no_trailing_space by blast
qed

section \<open>Facts about \<^verbatim>\<open>part_000\<close>\<close>

text \<open>\<open>PerplexityAPI\<close> records its request whatever the answer, and its result does
  not depend on the state.\<close>

lemma PerplexityAPI_snd: "snd (PerplexityAPI e input w) = w\<lparr>requests := requests w @ [input]\<rparr>"
  by (simp add: PerplexityAPI_def Let_def split: response.splits option.splits sum.splits list.splits)

lemma PerplexityAPI_fst: "fst (PerplexityAPI e input w) = fst (PerplexityAPI e input w')"
  by (simp add: PerplexityAPI_def Let_def split: response.splits option.splits sum.splits list.splits)

text \<open>The error \<open>invalid response format\<close> comes back when \<open>choices\<close> is missing, not
  an array or empty, and when \<open>choices[0]\<close> is an object whose \<open>message\<close> is not an
  object or whose \<open>content\<close> is not a string. When \<open>choices[0]\<close> is not an object the
  function panics.\<close>

lemma PerplexityAPI_invalid_response:
  assumes "http e q = Received None (JSON (JObject m))"
    and "asArray (index m ''choices'') = None \<or> asArray (index m ''choices'') = Some []
         \<or> (\<exists>choice cs. asArray (index m ''choices'') = Some (JObject choice # cs) \<and>
              (asObject (index choice ''message'') = None
               \<or> (\<exists>message. asObject (index choice ''message'') = Some message \<and>
                     asString (index message ''content'') = None)))"
  shows "fst (PerplexityAPI e q w) = Returns ([], Some ErrInvalidResponse)"
  using assms by (auto simp: PerplexityAPI_def)

lemma PerplexityAPI_panics:
  assumes "http e q = Received None (JSON (JObject m))"
    and "index m ''choices'' = Some (JArray (c # cs))" and "asObject (Some c) = None"
  shows "fst (PerplexityAPI e q w) = Panics"
  using assms by (simp add: PerplexityAPI_def)

text \<open>The two ways through the last branch of \<open>handleUserMessage\<close>.\<close>

lemma handleUserMessage_cached:
  assumes "\<not> HasPrefix (TrimSpace (Text ev)) ''!save ''"
    and "TrimSpace (Text ev) \<noteq> ''!list''" and "TrimSpace (Text ev) \<noteq> ''!random''"
    and "TrimSpace (Text ev) \<noteq> ''!summarize''"
    and "TrimSpace (Text ev) = lastUserInput st"
  shows "handleUserMessage e ev st =
           Returns (st\<lparr>outbox := outbox st @ [(Channel ev, lastBotResponse st)]\<rparr>)"
  using assms by (simp add: handleUserMessage_def slackSendMessage_def)

lemma handleUserMessage_fresh:
  assumes "\<not> HasPrefix (TrimSpace (Text ev)) ''!save ''"
    and "TrimSpace (Text ev) \<noteq> ''!list''" and "TrimSpace (Text ev) \<noteq> ''!random''"
    and "TrimSpace (Text ev) \<noteq> ''!summarize''"
    and "TrimSpace (Text ev) \<noteq> lastUserInput st"
  shows "handleUserMessage e ev st =
           (case fst (PerplexityAPI e (TrimSpace (Text ev)) st) of
              Panics \<Rightarrow> Panics
            | Returns (response, Some err) \<Rightarrow>
                Returns (st\<lparr>lastUserInput := TrimSpace (Text ev),
                            requests := requests st @ [TrimSpace (Text ev)],
                            outbox := outbox st @ [(Channel ev, ''Error: '' @ Error err)]\<rparr>)
            | Returns (response, None) \<Rightarrow>
                Returns (st\<lparr>lastUserInput := TrimSpace (Text ev),
                            requests := requests st @ [TrimSpace (Text ev)],
                            lastBotResponse := response,
                            outbox := outbox st @ [(Channel ev, response)]\<rparr>))"
proof -
  let ?t = "TrimSpace (Text ev)"
  let ?p = "PerplexityAPI e ?t (st\<lparr>lastUserInput := ?t\<rparr>)"
  have s: "snd ?p = st\<lparr>lastUserInput := ?t, requests := requests st @ [?t]\<rparr>"
    by (simp add: PerplexityAPI_snd)
  have f: "fst ?p = fst (PerplexityAPI e ?t st)"
    by (rule PerplexityAPI_fst)
  have "handleUserMessage e ev st =
          (case ?p of
             (Panics, st1) \<Rightarrow> Panics
           | (Returns (response, Some err), st1) \<Rightarrow>
               Returns (slackSendMessage (Channel ev) (''Error: '' @ Error err) st1)
           | (Returns (response, None), st1) \<Rightarrow>
               Returns (slackSendMessage (Channel ev) response (st1\<lparr>lastBotResponse := response\<rparr>)))"
    using assms by (simp add: handleUserMessage_def Let_def)
  also have "\<dots> =
          (case fst ?p of
             Panics \<Rightarrow> Panics
           | Returns (response, Some err) \<Rightarrow>
               Returns (slackSendMessage (Channel ev) (''Error: '' @ Error err) (snd ?p))
           | Returns (response, None) \<Rightarrow>
               Returns (slackSendMessage (Channel ev) response ((snd ?p)\<lparr>lastBotResponse := response\<rparr>)))"
    by (simp add: case_prod_beta)
  finally show ?thesis
    unfolding s f
    by (simp add: slackSendMessage_def split: outcome.splits prod.splits option.splits)
qed

text \<open>\<open>handleEventAPI\<close> drops the messages of bots.\<close>

lemma handleEventAPI_ignores_bots: "BotID ev \<noteq> [] \<Longrightarrow> handleEventAPI e (Message ev) st = Returns st"
  by (simp add: handleEventAPI_def)

text \<open>A text that is no command, sent twice by one sender with nothing handled in
  between: where it differs from \<open>lastUserInput\<close> and the completion call succeeds,
  \<open>handleUserMessage\<close> skips the call for the second message and repeats the reply.\<close>

lemma handleUserMessage_repeated_text:
  assumes "BotID ev1 = []" and "BotID ev2 = []" and "User ev1 = User ev2"
    and "TrimSpace (Text ev1) = q" and "TrimSpace (Text ev2) = q"
    and "\<not> HasPrefix q ''!save ''" and "q \<noteq> ''!list''" and "q \<noteq> ''!random''"
    and "q \<noteq> ''!summarize''"
    and "q \<noteq> lastUserInput st"
    and "fst (PerplexityAPI e1 q st) = Returns (r, None)"
  shows "\<exists>st'. listen [(e1, EventsAPI (Message ev1)), (e2, EventsAPI (Message ev2))] st = Returns st' \<and>
           requests st' = requests st @ [q] \<and>
           outbox st' = outbox st @ [(Channel ev1, r), (Channel ev2, r)]"
proof -
  let ?st1 = "st\<lparr>lastUserInput := q, requests := requests st @ [q],
                  lastBotResponse := r, outbox := outbox st @ [(Channel ev1, r)]\<rparr>"
  have "handleUserMessage e1 ev1 st = Returns ?st1"
    using handleUserMessage_fresh [of ev1 st e1] assms by simp
  then have first: "handleEventAPI e1 (Message ev1) st = Returns ?st1"
    using assms(1) by (simp add: handleEventAPI_def)
  have "handleUserMessage e2 ev2 ?st1 =
          Returns (?st1\<lparr>outbox := outbox ?st1 @ [(Channel ev2, lastBotResponse ?st1)]\<rparr>)"
    using assms by (intro handleUserMessage_cached) simp_all
  then have second: "handleEventAPI e2 (Message ev2) ?st1 =
          Returns (?st1\<lparr>outbox := outbox ?st1 @ [(Channel ev2, lastBotResponse ?st1)]\<rparr>)"
    using assms(2) by (simp add: handleEventAPI_def)
  show ?thesis
    by (simp add: first second)
qed

text \<open>\<open>getRandomHyperlink\<close> deletes by id: where the ids are distinct (\<open>id\<close> is the
  primary key) exactly the selected row leaves the table, the other rows stay in their
  order, and the id of the removed row is no longer stored.\<close>

lemma filter_single_id:
  assumes "distinct (map fst xs)" and "k < length xs"
  shows "filter (\<lambda>r. fst r \<noteq> fst (xs ! k)) xs = take k xs @ drop (Suc k) xs"
  using assms
proof (induction xs arbitrary: k)
  case Nil
  then show ?case by simp
next
  case (Cons x xs)
  show ?case
  proof (cases k)
    case 0
    from Cons.prems have "fst x \<notin> fst ` set xs" by simp
    then have "\<forall>r \<in> set xs. fst r \<noteq> fst x" by (metis imageI)
    then have "filter (\<lambda>r. fst r \<noteq> fst x) xs = xs" by (simp add: filter_id_conv)
    with 0 show ?thesis by simp
  next
    case (Suc j)
    with Cons.prems have j: "j < length xs" and d: "distinct (map fst xs)" by auto
    from Cons.prems j have "fst x \<noteq> fst (xs ! j)"
      by (metis distinct.simps(2) list.simps(9) nth_mem image_eqI list.set_map)
    with Suc Cons.IH [OF d j] show ?thesis by simp
  qed
qed

lemma getRandomHyperlink_removes_one_row:
  assumes "distinct (map fst (rows w))"
    and "getRandomHyperlink e w = ((url, None), w')"
  shows "\<exists>k id'. k < length (rows w) \<and> rows w ! k = (id', url) \<and>
           w' = w\<lparr>rows := take k (rows w) @ drop (Suc k) (rows w)\<rparr> \<and>
           id' \<notin> fst ` set (rows w')"
proof -
  let ?k = "random e mod length (rows w)"
  from assms(2) have ne: "rows w \<noteq> []" and sel: "selectRandom e w = Inr (rows w ! ?k)"
    by (auto simp: getRandomHyperlink_def selectRandom_def split: option.splits if_splits sum.splits)
  then have k: "?k < length (rows w)" by simp
  obtain i u where r: "rows w ! ?k = (i, u)" by (cases "rows w ! ?k")
  from assms(2) sel r have u: "u = url" and w': "w' = w\<lparr>rows := filter (\<lambda>r. fst r \<noteq> i) (rows w)\<rparr>"
    by (auto simp: getRandomHyperlink_def split: option.splits)
  have "filter (\<lambda>r. fst r \<noteq> i) (rows w) = take ?k (rows w) @ drop (Suc ?k) (rows w)"
    using filter_single_id [OF assms(1) k] r by simp
  moreover from w' have "i \<notin> fst ` set (rows w')" by auto
  ultimately show ?thesis using k r u w' by auto
qed

section \<open>Facts about \<^verbatim>\<open>main.go\<close>\<close>

text \<open>In the first program a text that matches no branch of \<open>handleMessage\<close> changes
  nothing: no reply, no request.\<close>

lemma handleMessage_unmatched:
  assumes "\<not> HasPrefix (TrimSpace (Text ev)) ''!perplexity''"
    and "\<not> HasPrefix (TrimSpace (Text ev)) ''!savelink''"
    and "TrimSpace (Text ev) \<noteq> ''!getlink''" and "TrimSpace (Text ev) \<noteq> ''!listlinks''"
    and "TrimSpace (Text ev) \<noteq> ''!summarize''"
  shows "handleMessage e ev w = w"
  using assms by (simp add: handleMessage_def)

text \<open>There \<open>!getlink\<close> on an empty table answers \<open>No hyperlinks available\<close>.\<close>

lemma handleMessage_getlink_empty:
  assumes "TrimSpace (Text ev) = ''!getlink''" and "rows w = []" and "db_select e = None"
  shows "handleMessage e ev w = w\<lparr>outbox := outbox w @ [(Channel ev, ''No hyperlinks available'')]\<rparr>"
  using assms
  by (simp add: handleMessage_def HasPrefix_def getRandomHyperlink_main_def selectRandom_def
      slackSendMessage_def)

text \<open>There \<open>PerplexityAPI\<close> has no error result: a body without the content path
  gives a fixed text.\<close>

lemma PerplexityAPI_main_substitute:
  assumes "http e q = Received rerr (JSON (JObject m))"
    and "asArray (index m ''choices'') = None \<or> asArray (index m ''choices'') = Some []
         \<or> (\<exists>c cs. asArray (index m ''choices'') = Some (c # cs) \<and> asObject (Some c) = None)"
  shows "fst (PerplexityAPI_main e q w) = ''No response from Perplexity API''"
  using assms by (auto simp: PerplexityAPI_main_def Let_def)

text \<open>The loop of the second program drops the messages of bots, and a turn for one
  sender leaves the entry of every other sender in \<open>lastMessage\<close> as it was.\<close>

lemma turn_ignores_bots: "BotID ev \<noteq> [] \<Longrightarrow> turn decode e ev s = s"
  by (simp add: turn_def)

lemma turn_other_sender: "b \<noteq> User ev \<Longrightarrow> lastMessage (turn decode e ev s) b = lastMessage s b"
  by (simp add: turn_def Let_def SlackSend_def
      split: response.splits option.splits sum.splits list.splits)


section \<open>The claims\<close>

subsection \<open>C1: a text that is no command\<close>

text \<open>
  C1: a message of a person whose trimmed text is none of the commands is a completion
  query: the completion endpoint is asked with the full trimmed text and exactly one
  message is posted to the channel. \<open>handleUserMessage\<close> of \<^verbatim>\<open>part_000\<close> ends
  with such a branch (\<open>handleUserMessage_fresh\<close>). The chain of \<open>handleMessage\<close> in the
  first program of \<^verbatim>\<open>main.go\<close> (lines 85-134) has no final \<open>else\<close>: the text
  \<open>hello\<close> of a person is dropped, nothing is asked and nothing is posted.
\<close>

theorem unmatched_text_dropped_by_main:
  "BotID (person ''U1'' ''hello'') = []
   \<and> TrimSpace (Text (person ''U1'' ''hello'')) = ''hello''
   \<and> listen_main [(answering, EventsAPI (Message (person ''U1'' ''hello'')))] (start_main [] 0) =
       \<lparr>outbox = [], requests = [], rows = [], seq = 0\<rparr>"
  by code_simp

subsection \<open>C2: messages of bots\<close>

text \<open>
  C2: a message whose bot flag is set is discarded, nothing is executed and nothing is
  posted. \<open>handleEventAPI\<close> of \<^verbatim>\<open>part_000\<close> and the loop of the second program of
  \<^verbatim>\<open>main.go\<close> do so (\<open>handleEventAPI_ignores_bots\<close>, \<open>turn_ignores_bots\<close>). The loop
  of the first program of \<^verbatim>\<open>main.go\<close> (lines 55-80) does not test \<open>BotID\<close>: the
  command \<open>!getlink\<close> posted by a bot is executed and answered.
\<close>

theorem bot_message_answered_by_main:
  "BotID (automaton ''U9'' ''!getlink'') = ''B7''
   \<and> listen_main [(answering, EventsAPI (Message (automaton ''U9'' ''!getlink'')))] (start_main [] 0) =
       \<lparr>outbox = [(''lobby'', ''No hyperlinks available'')], requests = [], rows = [], seq = 0\<rparr>"
  by code_simp

subsection \<open>C3: removing the selected row\<close>

text \<open>
  C3: picking a random link removes exactly the selected row, and other rows with the
  same URL stay. \<open>getRandomHyperlink\<close> of \<^verbatim>\<open>part_000\<close> deletes by id and does so
  (\<open>getRandomHyperlink_removes_one_row\<close>). \<open>getRandomHyperlink\<close> of the first program
  of \<^verbatim>\<open>main.go\<close> (lines 188-202) deletes by URL: with two rows holding the same URL,
  one pick empties the table.
\<close>

theorem pick_by_url_removes_both_rows:
  "getRandomHyperlink_main answering (start_main [(1, ''http://a''), (2, ''http://a'')] 2) =
     ((''http://a'', None), \<lparr>outbox = [], requests = [], rows = [], seq = 2\<rparr>)"
  by code_simp

subsection \<open>C4: the same text twice in a row\<close>

text \<open>
  C4: when a sender submits the same query text twice in a row, the second handling
  skips the remote call: one request in all, and two identical replies.
  \<open>handleUserMessage\<close> of \<^verbatim>\<open>part_000\<close> compares before it calls and does so
  (\<open>handleUserMessage_repeated_text\<close>). The loop of the second program of
  \<^verbatim>\<open>main.go\<close> calls \<open>PerplexityAPI\<close> on line 421 and compares the text with
  \<open>lastMessage\<close> only on line 435: the text \<open>hello\<close> sent twice by U1 costs two
  requests, and the second message gets no reply at all.
\<close>

theorem repeated_text_called_twice_by_main:
  "requests (turn one_choice answering (person ''U1'' ''hello'')
              (turn one_choice answering (person ''U1'' ''hello'') start_dedup)) =
     [''hello'', ''hello'']
   \<and> outbox (turn one_choice answering (person ''U1'' ''hello'')
              (turn one_choice answering (person ''U1'' ''hello'') start_dedup)) =
     [(''general'', ''hi'')]
   \<and> lastMessage (turn one_choice answering (person ''U1'' ''hello'') start_dedup) ''U1'' =
     Some ''hello''"
  by code_simp

subsection \<open>C5: the cache and other senders\<close>

text \<open>
  C5: handling a completion message of sender A leaves the cache entry of another
  sender B as it was. The second program of \<^verbatim>\<open>main.go\<close> keeps one entry for each
  sender and does so (\<open>turn_other_sender\<close>). \<^verbatim>\<open>part_000\<close> keeps one pair of globals
  for all senders: after U2 asked \<open>q\<close>, the text \<open>z\<close> of U1 overwrites \<open>lastUserInput\<close>,
  and when U2 repeats \<open>q\<close> the endpoint is asked again.
\<close>

theorem other_sender_overwrites_cache:
  "listen [(answering, EventsAPI (Message (person ''U2'' ''q''))),
           (answering, EventsAPI (Message (person ''U1'' ''z'')))] (start [] 0) =
     Returns \<lparr>outbox = [(''lobby'', ''hi''), (''lobby'', ''hi'')],
              requests = [''q'', ''z''], rows = [], seq = 0,
              lastUserInput = ''z'', lastBotResponse = ''hi''\<rparr>
   \<and> listen [(answering, EventsAPI (Message (person ''U2'' ''q''))),
             (answering, EventsAPI (Message (person ''U1'' ''z''))),
             (answering, EventsAPI (Message (person ''U2'' ''q'')))] (start [] 0) =
     Returns \<lparr>outbox = [(''lobby'', ''hi''), (''lobby'', ''hi''), (''lobby'', ''hi'')],
              requests = [''q'', ''z'', ''q''], rows = [], seq = 0,
              lastUserInput = ''q'', lastBotResponse = ''hi''\<rparr>"
  by code_simp

subsection \<open>C6: a failed completion call\<close>

text \<open>
  C6: when the completion call fails, an error message is posted and the cache is left
  as it was before the call. \<open>handleUserMessage\<close> of \<^verbatim>\<open>part_000\<close> posts the error,
  but it assigns \<open>lastUserInput\<close> on line 128, before the call of line 129: after the
  failure \<open>lastUserInput\<close> holds the new text, and the same text sent again is answered
  with the old \<open>lastBotResponse\<close> (here the empty string) without asking the endpoint.
\<close>

theorem failed_call_updates_lastUserInput:
  "handleEventAPI unreachable (Message (person ''U1'' ''hello'')) (start [] 0) =
     Returns \<lparr>outbox = [(''lobby'', ''Error: connection refused'')], requests = [''hello''],
              rows = [], seq = 0, lastUserInput = ''hello'', lastBotResponse = []\<rparr>
   \<and> listen [(unreachable, EventsAPI (Message (person ''U1'' ''hello''))),
             (answering, EventsAPI (Message (person ''U1'' ''hello'')))] (start [] 0) =
     Returns \<lparr>outbox = [(''lobby'', ''Error: connection refused''), (''lobby'', [])],
              requests = [''hello''], rows = [], seq = 0,
              lastUserInput = ''hello'', lastBotResponse = []\<rparr>"
  by code_simp

subsection \<open>C7: the empty table\<close>

text \<open>
  C7: on an empty table the pick returns an empty result, not an error, and the command
  answers \<open>No hyperlinks available\<close>. The first program of \<^verbatim>\<open>main.go\<close> does so
  (\<open>handleMessage_getlink_empty\<close>). \<open>getRandomHyperlink\<close> of \<^verbatim>\<open>part_000\<close> returns
  every error of \<open>Scan\<close>, \<open>sql.ErrNoRows\<close> included, and \<open>!random\<close> answers with an
  error message.
\<close>

theorem random_on_empty_table_is_an_error:
  "getRandomHyperlink answering (start [] 0) = (([], Some ErrNoRows), start [] 0)
   \<and> handleEventAPI answering (Message (person ''U1'' ''!random'')) (start [] 0) =
       Returns \<lparr>outbox = [(''lobby'', ''Error getting random hyperlink: sql: no rows in result set'')],
                requests = [], rows = [], seq = 0, lastUserInput = [], lastBotResponse = []\<rparr>"
  by code_simp

subsection \<open>C8: a body without the content path\<close>

text \<open>
  C8: a response body without \<open>choices[0].message.content\<close> gives a typed failure, not
  a crash and not a substitute text. \<open>PerplexityAPI\<close> of \<^verbatim>\<open>part_000\<close> returns the
  error \<open>invalid response format\<close> in the cases of \<open>PerplexityAPI_invalid_response\<close>,
  but on the body \<^verbatim>\<open>{"choices":["x"]}\<close> the unchecked assertion of line 190 panics.
\<close>

theorem string_choice_panics:
  "http misshapen ''hello'' = Received None (JSON (JObject [(''choices'', JArray [JString ''x''])]))
   \<and> fst (PerplexityAPI misshapen ''hello'' (start [] 0)) = Panics"
  by code_simp


subsection \<open>C9: the argument of the save command\<close>

text \<open>
  C9: the URL argument of a save command is the remainder after the prefix, trimmed, and
  it must be non-empty before the row is inserted. In \<^verbatim>\<open>part_000\<close> the prefix is
  \<open>!save\<close> with its space and the remainder of a trimmed text is never empty
  (\<open>save_remainder_nonempty\<close>). In the first program of \<^verbatim>\<open>main.go\<close> the prefix is
  \<open>!savelink\<close> without the space, and \<open>handleMessage\<close> (lines 91-98) passes the
  remainder to \<open>saveHyperlink\<close> as it is: the bare command inserts a row with the empty
  URL and reports success, and \<open>!getlink\<close> then deletes that row and answers, by its
  test \<open>url == ""\<close> of line 103, that no hyperlinks are available; a URL after the
  command is stored with the space in front of it.
\<close>

theorem bare_savelink_stores_empty_url:
  "handleMessage answering (person ''U1'' ''!savelink'') (start_main [] 0) =
     \<lparr>outbox = [(''lobby'', ''Hyperlink saved successfully'')], requests = [],
      rows = [(1, [])], seq = 1\<rparr>
   \<and> listen_main [(answering, EventsAPI (Message (person ''U1'' ''!savelink''))),
                  (answering, EventsAPI (Message (person ''U1'' ''!getlink'')))] (start_main [] 0) =
     \<lparr>outbox = [(''lobby'', ''Hyperlink saved successfully''),
                (''lobby'', ''No hyperlinks available'')], requests = [],
      rows = [], seq = 1\<rparr>
   \<and> handleMessage answering (person ''U1'' ''!savelink http://x/y'') (start_main [] 0) =
     \<lparr>outbox = [(''lobby'', ''Hyperlink saved successfully'')], requests = [],
      rows = [(1, '' http://x/y'')], seq = 1\<rparr>"
  by code_simp

subsection \<open>C10: the empty text in a process that has just started\<close>

text \<open>
  C10: in a process of \<^verbatim>\<open>part_000\<close> where \<open>lastUserInput\<close> and \<open>lastBotResponse\<close>
  still hold their initial empty strings, a message of a person whose text is empty after
  trimming takes the cached branch of \<open>handleUserMessage\<close>: the empty string is posted
  to the channel of the message, no request goes to the completion endpoint, and nothing
  else changes.
\<close>

theorem empty_text_answered_from_cache:
  assumes "BotID ev = []" and "TrimSpace (Text ev) = []"
    and "lastUserInput st = []" and "lastBotResponse st = []"
  shows "handleEventAPI e (Message ev) st = Returns (st\<lparr>outbox := outbox st @ [(Channel ev, [])]\<rparr>)"
  using assms
  by (simp add: handleEventAPI_def handleUserMessage_def HasPrefix_def slackSendMessage_def)

text \<open>A message of two spaces, with the endpoint out of reach.\<close>

theorem empty_text_answered_from_cache_witness:
  "BotID (person ''U1'' ''  '') = [] \<and> TrimSpace (Text (person ''U1'' ''  '')) = []
   \<and> lastUserInput (start [] 0) = [] \<and> lastBotResponse (start [] 0) = []
   \<and> handleEventAPI unreachable (Message (person ''U1'' ''  '')) (start [] 0) =
       Returns \<lparr>outbox = [(''lobby'', [])], requests = [], rows = [], seq = 0,
                lastUserInput = [], lastBotResponse = []\<rparr>"
proof -
  have b: "BotID (person ''U1'' ''  '') = []" by (simp add: person_def)
  have t: "TrimSpace (Text (person ''U1'' ''  '')) = []" by code_simp
  have u: "lastUserInput (start [] 0) = []" by (simp add: start_def)
  have r: "lastBotResponse (start [] 0) = []" by (simp add: start_def)
  show ?thesis
    using empty_text_answered_from_cache [OF b t u r, of unreachable] b t u r
    by (simp add: start_def person_def)
qed

end
